theory Spec2Isabelle
  imports Complex_Main "HOL-Library.Sublist"
begin

section \<open>Regulator agent of the service mesh: data model\<close>

text \<open>
  The development follows \<^verbatim>\<open>regulator_agent/main.py\<close>. Everything the agent does beyond
  computing a value is explicit: an exception is the left summand of a result, an outbound
  HTTP request and a call of the distance routine are entries of an effect trace, and the
  replies of the other services are arguments.
\<close>

subsection \<open>Exceptions\<close>

text \<open>
  Exceptions raised inside libraries (httpx, the JSON decoder, pandas, geopandas, geopy).
  Each carries the text that \<^verbatim>\<open>str(e)\<close> yields; an \<^verbatim>\<open>httpx.HTTPStatusError\<close> carries
  the text of the response as well (\<^verbatim>\<open>e.response.text\<close>).
\<close>

datatype lib_exn =
    HTTPStatusError string string
  | RequestError string
  | OtherError string

fun lib_str :: "lib_exn \<Rightarrow> string" where
  "lib_str (HTTPStatusError msg body) = msg"
| "lib_str (RequestError msg) = msg"
| "lib_str (OtherError msg) = msg"

text \<open>
  What a function of the agent can raise: \<^verbatim>\<open>fastapi.HTTPException(status_code, detail)\<close>,
  the \<^verbatim>\<open>KeyError\<close> of a dictionary subscript, or a library exception that no handler
  caught.
\<close>

datatype exn =
    HTTPException nat string
  | KeyError string
  | Uncaught lib_exn

subsection \<open>Payloads of the data providers\<close>

text \<open>
  A row of the sighting provider (\<^verbatim>\<open>{"id", "type", "lat", "lon"}\<close>) and a row of the vessel
  provider (\<^verbatim>\<open>{"id", "class", "lat", "lon"}\<close>).
\<close>

record sighting =
  w_id :: string
  w_type :: string
  w_lat :: real
  w_lon :: real

record vessel_track =
  v_id :: string
  v_class :: string
  v_lat :: real
  v_lon :: real

text \<open>
  The values found under the keys of a provider payload: JSON null, a number, a string, or a
  list of rows. A payload is a Python \<^verbatim>\<open>dict\<close>, kept as an association list read with
  \<^const>\<open>map_of\<close>.
\<close>

datatype 'r pvalue =
    PNone
  | PNumber real
  | PText string
  | PRows "'r list"

type_synonym 'r payload = "(string \<times> 'r pvalue) list"

text \<open>\<^verbatim>\<open>d.get(key, default)\<close>\<close>

definition dict_get :: "'r payload \<Rightarrow> string \<Rightarrow> 'r pvalue \<Rightarrow> 'r pvalue" where
  "dict_get d k dflt = (case map_of d k of None \<Rightarrow> dflt | Some v \<Rightarrow> v)"

text \<open>Python truth value, as \<^verbatim>\<open>not x\<close> tests it.\<close>

fun truthy :: "'r pvalue \<Rightarrow> bool" where
  "truthy PNone = False"
| "truthy (PNumber x) = (x \<noteq> 0)"
| "truthy (PText s) = (s \<noteq> [])"
| "truthy (PRows rs) = (rs \<noteq> [])"

subsection \<open>Risk events and effects\<close>

record risk_event =
  vessel_id :: string
  vessel_class :: string
  whale_sighting_id :: string
  distance_meters :: real

text \<open>A coordinate pair as \<^verbatim>\<open>great_circle\<close> receives it: (latitude, longitude).\<close>

type_synonym latlon = "real \<times> real"

text \<open>
  \<^verbatim>\<open>geopy.distance.great_circle(a, b).meters\<close> is a library routine and a parameter of the
  model: it returns a distance in meters or raises.
\<close>

type_synonym great_circle = "latlon \<Rightarrow> latlon \<Rightarrow> lib_exn + real"

text \<open>
  The body of an outbound request: \<^verbatim>\<open>{"zone": zone}\<close> for a data provider, and
  \<^verbatim>\<open>{"prompt": prompt}\<close> for the summarizer, where the prompt is built from the zone and the
  list of risk events.
\<close>

datatype request =
    ZoneRequest string
  | PromptRequest string "risk_event list"

datatype effect =
    HttpPost string request
  | GreatCircle latlon latlon

section \<open>Proximity analysis\<close>

text \<open>
  \<^verbatim>\<open>pd.DataFrame(x)\<close>: a list of rows gives a frame with these rows, \<^verbatim>\<open>None\<close> gives the
  empty frame, a scalar is rejected with a \<^verbatim>\<open>ValueError\<close>.
\<close>

fun DataFrame :: "'r pvalue \<Rightarrow> lib_exn + 'r list" where
  "DataFrame (PRows rs) = Inr rs"
| "DataFrame PNone = Inr []"
| "DataFrame (PNumber x) = Inl (OtherError ''DataFrame constructor not properly called!'')"
| "DataFrame (PText s) = Inl (OtherError ''DataFrame constructor not properly called!'')"

text \<open>
  \<^verbatim>\<open>whales_gdf.merge(vessels_gdf, how="cross")\<close>: every row of the left frame with every row of
  the right frame, the left frame outermost.
\<close>

definition cross_merge :: "sighting list \<Rightarrow> vessel_track list \<Rightarrow> (sighting \<times> vessel_track) list" where
  "cross_merge whales vessels = concat (map (\<lambda>w. map (\<lambda>v. (w, v)) vessels) whales)"

text \<open>
  \<^verbatim>\<open>calculate_distance(row)\<close>: the geometry of a row is the point (x = lon, y = lat), and
  the routine is called on (y, x) of the whale and (y, x) of the vessel.
\<close>

definition calculate_distance :: "great_circle \<Rightarrow> sighting \<times> vessel_track \<Rightarrow> lib_exn + real" where
  "calculate_distance gc row = gc (w_lat (fst row), w_lon (fst row)) (v_lat (snd row), v_lon (snd row))"

definition distance_call :: "sighting \<times> vessel_track \<Rightarrow> effect" where
  "distance_call row = GreatCircle (w_lat (fst row), w_lon (fst row)) (v_lat (snd row), v_lon (snd row))"

text \<open>
  \<^verbatim>\<open>all_pairs.apply(calculate_distance, axis=1)\<close>: the rows in order, one call each; the first
  exception ends the pass.
\<close>

fun apply_rows :: "great_circle \<Rightarrow> (sighting \<times> vessel_track) list
    \<Rightarrow> effect list \<times> (lib_exn + ((sighting \<times> vessel_track) \<times> real) list)" where
  "apply_rows gc [] = ([], Inr [])"
| "apply_rows gc (row # rows) =
     (case calculate_distance gc row of
        Inl e \<Rightarrow> ([distance_call row], Inl e)
      | Inr d \<Rightarrow>
          (case apply_rows gc rows of
             (tr, Inl e) \<Rightarrow> (distance_call row # tr, Inl e)
           | (tr, Inr ds) \<Rightarrow> (distance_call row # tr, Inr ((row, d) # ds))))"

text \<open>\<^verbatim>\<open>round\<close> to zero decimals, as numpy does it: to the nearest integer, a tie to the even one.\<close>

definition round_half_even :: "real \<Rightarrow> real" where
  "round_half_even x =
     (let f = \<lfloor>x\<rfloor>; r = x - of_int f
      in if r < 1 / 2 then of_int f
         else if 1 / 2 < r then of_int (f + 1)
         else if even f then of_int f else of_int (f + 1))"

text \<open>
  The renamed and selected columns of a retained pair, the distance rounded, as one record
  of \<^verbatim>\<open>to_dict('records')\<close>.
\<close>

definition to_record :: "(sighting \<times> vessel_track) \<times> real \<Rightarrow> risk_event" where
  "to_record p =
     \<lparr>vessel_id = v_id (snd (fst p)),
      vessel_class = v_class (snd (fst p)),
      whale_sighting_id = w_id (fst (fst p)),
      distance_meters = round_half_even (snd p)\<rparr>"

text \<open>The body of the \<^verbatim>\<open>try\<close> block of \<^verbatim>\<open>analyze_proximity_risk\<close>.\<close>

definition analysis_body :: "great_circle \<Rightarrow> sighting pvalue \<Rightarrow> vessel_track pvalue
    \<Rightarrow> effect list \<times> (lib_exn + risk_event list)" where
  "analysis_body gc whale_sightings vessel_tracks =
     (case DataFrame whale_sightings of
        Inl e \<Rightarrow> ([], Inl e)
      | Inr whales_df \<Rightarrow>
          (case DataFrame vessel_tracks of
             Inl e \<Rightarrow> ([], Inl e)
           | Inr vessels_df \<Rightarrow>
               (case apply_rows gc (cross_merge whales_df vessels_df) of
                  (tr, Inl e) \<Rightarrow> (tr, Inl e)
                | (tr, Inr all_pairs) \<Rightarrow>
                    (tr, Inr (map to_record (filter (\<lambda>p. snd p \<le> 1852) all_pairs))))))"

definition analyze_proximity_risk :: "great_circle \<Rightarrow> sighting payload \<Rightarrow> vessel_track payload
    \<Rightarrow> effect list \<times> (exn + risk_event list)" where
  "analyze_proximity_risk gc whale_data vessel_data =
     (let whale_sightings = dict_get whale_data ''sightings'' (PRows []);
          vessel_tracks = dict_get vessel_data ''vessels'' (PRows [])
      in if \<not> truthy whale_sightings \<or> \<not> truthy vessel_tracks then ([], Inr [])
         else
           (case analysis_body gc whale_sightings vessel_tracks of
              (tr, Inl e) \<Rightarrow>
                (tr, Inl (HTTPException 500 (''Data analysis with Pandas failed: '' @ lib_str e)))
            | (tr, Inr events) \<Rightarrow> (tr, Inr events)))"

section \<open>Outbound HTTP\<close>

text \<open>
  What \<^verbatim>\<open>http_client.post\<close> gives back is an argument of the model: either the call raises
  (a timeout or a connection failure is an \<^verbatim>\<open>httpx.RequestError\<close>), or a response arrives.
  A response has its status code, its text, the message of the \<^verbatim>\<open>HTTPStatusError\<close> that
  \<^verbatim>\<open>raise_for_status\<close> would raise for it, and the outcome of \<^verbatim>\<open>response.json()\<close>, which
  raises when the body does not parse.
\<close>

record 'b response =
  status_code :: nat
  body_text :: string
  status_message :: string
  json_body :: "lib_exn + 'b"

datatype 'b http_outcome =
    PostRaised lib_exn
  | PostResponse "'b response"

type_synonym 'b post = "string \<Rightarrow> request \<Rightarrow> 'b http_outcome"

text \<open>\<^verbatim>\<open>Response.is_success\<close> of httpx: the 2xx codes.\<close>

definition is_success :: "nat \<Rightarrow> bool" where
  "is_success code = (200 \<le> code \<and> code \<le> 299)"

definition raise_for_status :: "'b response \<Rightarrow> lib_exn + unit" where
  "raise_for_status r =
     (if is_success (status_code r) then Inr ()
      else Inl (HTTPStatusError (status_message r) (body_text r)))"

text \<open>
  The three statements both callers have inside their \<^verbatim>\<open>try\<close>: post, \<^verbatim>\<open>raise_for_status\<close>,
  \<^verbatim>\<open>return response.json()\<close>.
\<close>

definition post_json :: "'b http_outcome \<Rightarrow> lib_exn + 'b" where
  "post_json outcome =
     (case outcome of
        PostRaised e \<Rightarrow> Inl e
      | PostResponse r \<Rightarrow>
          (case raise_for_status r of
             Inl e \<Rightarrow> Inl e
           | Inr u \<Rightarrow> json_body r))"

definition get_data_from_agent :: "'b post \<Rightarrow> string \<Rightarrow> string \<Rightarrow> effect list \<times> (exn + 'b)" where
  "get_data_from_agent post service_url zone =
     (if service_url = [] then
        ([], Inl (HTTPException 500 ''Service URL for a dependency is not configured.''))
      else
        ([HttpPost service_url (ZoneRequest zone)],
         (case post_json (post service_url (ZoneRequest zone)) of
            Inr d \<Rightarrow> Inr d
          | Inl (HTTPStatusError msg body) \<Rightarrow>
              Inl (HTTPException 503 (''Downstream service unavailable '' @ body))
          | Inl (RequestError msg) \<Rightarrow>
              Inl (HTTPException 504 ''Could not connect to downstream service'')
          | Inl (OtherError msg) \<Rightarrow> Inl (Uncaught (OtherError msg)))))"

section \<open>Summarization\<close>

text \<open>
  A summary is a JSON object with string values, kept as an association list; the reply of
  the summarizer is returned as it arrives.
\<close>

type_synonym summary = "(string \<times> string) list"

definition risk_level :: "summary \<Rightarrow> string option" where
  "risk_level s = map_of s ''risk_level''"

definition get_summary_and_action :: "summary post \<Rightarrow> string \<Rightarrow> risk_event list \<Rightarrow> string
    \<Rightarrow> effect list \<times> (exn + summary)" where
  "get_summary_and_action post llm_proxy_url risk_events zone =
     (if risk_events = [] then
        ([], Inr [(''summary'', ''No high-risk proximity events were detected.''),
                  (''risk_level'', ''Low''),
                  (''recommended_action'', ''No action required. Continue monitoring.'')])
      else
        ([HttpPost llm_proxy_url (PromptRequest zone risk_events)],
         (case post_json (post llm_proxy_url (PromptRequest zone risk_events)) of
            Inr reply \<Rightarrow> Inr reply
          | Inl e \<Rightarrow>
              Inr [(''summary'', ''AI summary generaton failed. See raw data.''),
                   (''risk_level'', ''Unknown''),
                   (''recommended_action'', ''Investigate AI model error: '' @ lib_str e)])))"

section \<open>The endpoint\<close>

record config =
  BIOLOGIST_AGENT_URL :: string
  VESSEL_AGENT_URL :: string
  LLM_PROXY_URL :: string

record report =
  zone :: string
  ai_summary :: summary
  risk_events_found :: nat
  risk_events :: "risk_event list"
  whale_data :: "sighting payload"
  vessel_data :: "vessel_track payload"

text \<open>
  \<^verbatim>\<open>asyncio.gather(whale_task, vessel_task, return_exceptions=True)\<close> runs both fetches to
  their end and hands back both outcomes. The loop over the outcomes raises the first
  exception it meets, the sighting provider's before the vessel provider's. The subscript
  \<^verbatim>\<open>whale_data['source']\<close> of the log line raises \<^verbatim>\<open>KeyError\<close> when the key is absent.
\<close>

definition check_risk :: "config \<Rightarrow> sighting payload post \<Rightarrow> vessel_track payload post
    \<Rightarrow> summary post \<Rightarrow> great_circle \<Rightarrow> string \<Rightarrow> effect list \<times> (exn + report)" where
  "check_risk cfg post_whale post_vessel post_llm gc zone_in =
     (case get_data_from_agent post_whale (BIOLOGIST_AGENT_URL cfg) zone_in of
        (t1, whale_result) \<Rightarrow>
     (case get_data_from_agent post_vessel (VESSEL_AGENT_URL cfg) zone_in of
        (t2, vessel_result) \<Rightarrow>
     (case whale_result of
        Inl e \<Rightarrow> (t1 @ t2, Inl e)
      | Inr whales \<Rightarrow>
     (case vessel_result of
        Inl e \<Rightarrow> (t1 @ t2, Inl e)
      | Inr vessels \<Rightarrow>
     (case map_of whales ''source'' of
        None \<Rightarrow> (t1 @ t2, Inl (KeyError ''source''))
      | Some src \<Rightarrow>
     (case analyze_proximity_risk gc whales vessels of
        (t3, Inl e) \<Rightarrow> (t1 @ t2 @ t3, Inl e)
      | (t3, Inr events) \<Rightarrow>
     (case get_summary_and_action post_llm (LLM_PROXY_URL cfg) events zone_in of
        (t4, Inl e) \<Rightarrow> (t1 @ t2 @ t3 @ t4, Inl e)
      | (t4, Inr summ) \<Rightarrow>
          (t1 @ t2 @ t3 @ t4,
           Inr \<lparr>zone = zone_in,
                ai_summary = summ,
                risk_events_found = length events,
                risk_events = events,
                whale_data = whales,
                vessel_data = vessels\<rparr>))))))))"

section \<open>The cross product as two nested loops\<close>

text \<open>
  The analysis as the specification words it: an outer loop over the sightings, an inner loop
  over the vessels, the distance of each pair computed in that order, a pair retained when
  its distance is at most 1852 meters, the retained distance rounded to a whole meter.
\<close>

fun spec_inner_loop :: "great_circle \<Rightarrow> sighting \<Rightarrow> vessel_track list \<Rightarrow> lib_exn + risk_event list" where
  "spec_inner_loop gc w [] = Inr []"
| "spec_inner_loop gc w (v # vs) =
     (case gc (w_lat w, w_lon w) (v_lat v, v_lon v) of
        Inl e \<Rightarrow> Inl e
      | Inr d \<Rightarrow>
          (case spec_inner_loop gc w vs of
             Inl e \<Rightarrow> Inl e
           | Inr evs \<Rightarrow>
               Inr (if d \<le> 1852
                    then \<lparr>vessel_id = v_id v, vessel_class = v_class v,
                          whale_sighting_id = w_id w,
                          distance_meters = round_half_even d\<rparr> # evs
                    else evs)))"

fun spec_outer_loop :: "great_circle \<Rightarrow> sighting list \<Rightarrow> vessel_track list \<Rightarrow> lib_exn + risk_event list" where
  "spec_outer_loop gc [] vs = Inr []"
| "spec_outer_loop gc (w # ws) vs =
     (case spec_inner_loop gc w vs of
        Inl e \<Rightarrow> Inl e
      | Inr evs \<Rightarrow>
          (case spec_outer_loop gc ws vs of
             Inl e \<Rightarrow> Inl e
           | Inr evs' \<Rightarrow> Inr (evs @ evs')))"

section \<open>The mock data providers and a stand-in distance\<close>

text \<open>
  \<^verbatim>\<open>get_sightings\<close> of the biologist agent: the reply depends on the configured data source
  version; the measured duration is an argument.
\<close>

definition get_sightings :: "string \<Rightarrow> string \<Rightarrow> real \<Rightarrow> sighting payload" where
  "get_sightings version zone_in duration =
     (if version = ''v1'' then
        [(''source'', PText ''v1 (Human Sightings)''),
         (''zone'', PText zone_in),
         (''duration_sec'', PNumber duration),
         (''sightings_count'', PNumber 2),
         (''sightings'', PRows
            [\<lparr>w_id = ''human-1'', w_type = ''SRKW'', w_lat = 45.52, w_lon = -123.99\<rparr>,
             \<lparr>w_id = ''human-2'', w_type = ''SRKW'', w_lat = 45.55, w_lon = -123.98\<rparr>])]
      else
        [(''source'', PText ''v2 (Acoustic Sensor Feed)''),
         (''zone'', PText zone_in),
         (''duration_sec'', PNumber duration),
         (''sightings_count'', PNumber 3),
         (''sightings'', PRows
            [\<lparr>w_id = ''sensor-1'', w_type = ''SRKW'', w_lat = 45.53, w_lon = -123.98\<rparr>,
             \<lparr>w_id = ''sensor-2'', w_type = ''SRKW'', w_lat = 45.54, w_lon = -123.97\<rparr>,
             \<lparr>w_id = ''sensor-3'', w_type = ''SRKW'', w_lat = 45.55, w_lon = -124.00\<rparr>])])"

text \<open>\<^verbatim>\<open>get_vessel_tracks\<close> of the vessel agent.\<close>

definition get_vessel_tracks :: "string \<Rightarrow> vessel_track payload" where
  "get_vessel_tracks zone_in =
     [(''source'', PText ''Mocked AIS Feed''),
      (''zone'', PText zone_in),
      (''vessel_count'', PNumber 4),
      (''vessels'', PRows
         [\<lparr>v_id = ''vessel-A'', v_class = ''Ferry'', v_lat = 45.53, v_lon = -123.985\<rparr>,
          \<lparr>v_id = ''vessel-B'', v_class = ''Recreational'', v_lat = 45.52, v_lon = -123.991\<rparr>,
          \<lparr>v_id = ''vessel-C'', v_class = ''Cargo'', v_lat = 45.56, v_lon = -124.01\<rparr>,
          \<lparr>v_id = ''vessel-D'', v_class = ''Recreational'', v_lat = 45.54, v_lon = -123.975\<rparr>])]"

text \<open>
  The theorems below hold for every distance routine. To evaluate the model at a concrete
  input some routine has to be supplied; these two stand in for the library there. The
  first never raises (degrees of latitude and longitude added up, 111195 meters each), the
  second rejects a latitude outside [-90, 90] as the library does and otherwise agrees with
  the first.
\<close>

definition taxicab_meters :: great_circle where
  "taxicab_meters a b = Inr (111195 * (\<bar>fst a - fst b\<bar> + \<bar>snd a - snd b\<bar>))"

definition checked_meters :: great_circle where
  "checked_meters a b =
     (if 90 < \<bar>fst a\<bar> \<or> 90 < \<bar>fst b\<bar>
      then Inl (OtherError ''Latitude must be in the [-90; 90] range.'')
      else taxicab_meters a b)"

text \<open>
  The configuration the agent starts with when the environment sets nothing, and replies of
  the other services to evaluate the model with: a 200 reply with a parsed body, a reply
  with an error status, a 200 reply whose body is not JSON, and a request that times out.
\<close>

definition default_config :: config where
  "default_config =
     \<lparr>BIOLOGIST_AGENT_URL = ''http://127.0.0.1:8081/get_sightings'',
      VESSEL_AGENT_URL = ''http://127.0.0.1:8082/get_vessel_tracks'',
      LLM_PROXY_URL = ''http://127.0.0.1:8083/generate_summary''\<rparr>"

definition ok_reply :: "'b \<Rightarrow> 'b http_outcome" where
  "ok_reply body =
     PostResponse \<lparr>status_code = 200, body_text = [], status_message = [], json_body = Inr body\<rparr>"

definition error_reply :: "nat \<Rightarrow> string \<Rightarrow> 'b http_outcome" where
  "error_reply code txt =
     PostResponse \<lparr>status_code = code, body_text = txt, status_message = ''Server error'',
                   json_body = Inl (OtherError ''Expecting value'')\<rparr>"

definition garbled_reply :: "'b http_outcome" where
  "garbled_reply =
     PostResponse \<lparr>status_code = 200, body_text = ''<html>'', status_message = [],
                   json_body = Inl (OtherError ''Expecting value'')\<rparr>"

definition timed_out :: "'b http_outcome" where
  "timed_out = PostRaised (RequestError ''timed out'')"

section \<open>The great-circle distance of the specification\<close>

text \<open>
  Modelled from the spec: the conversion of degrees to radians that the great-circle formula
  of section 4.1 needs. The routine the agent calls per pair, \<^verbatim>\<open>great_circle\<close> of geopy, is
  imported by \<^verbatim>\<open>regulator_agent/main.py\<close> and its body is not among the sources.
\<close>

definition radians :: "real \<Rightarrow> real" where
  "radians deg = deg * pi / 180"

text \<open>
  Modelled from the spec: \<^verbatim>\<open>distance(a, b)\<close> of section 4.1, the great-circle distance in
  meters by the haversine formula on a mean Earth radius. The specification names no value
  for the radius, so it is an argument. The body of \<^verbatim>\<open>great_circle\<close> of geopy, which the
  agent calls, is not among the sources; coordinates and distances are reals here, as in the
  rest of the development.
\<close>

definition spec_distance :: "real \<Rightarrow> latlon \<Rightarrow> latlon \<Rightarrow> real" where
  "spec_distance radius a b =
     (let phi1 = radians (fst a); phi2 = radians (fst b);
          dphi = phi2 - phi1;
          dlam = radians (snd b) - radians (snd a);
          h = (sin (dphi / 2))\<^sup>2 + cos phi1 * cos phi2 * (sin (dlam / 2))\<^sup>2
      in 2 * radius * arcsin (sqrt h))"

section \<open>Properties of the proximity analysis\<close>

subsection \<open>Rounding and the cross product\<close>

lemma round_half_even_le_int:
  assumes "x \<le> of_int n"
  shows "round_half_even x \<le> of_int n"
proof -
  have below: "\<lfloor>x\<rfloor> \<le> n"
    using assms by (simp add: floor_le_iff)
  show ?thesis
  proof (cases "\<lfloor>x\<rfloor> = n")
    case True
    then have "x = of_int n"
      using assms by linarith
    then show ?thesis
      by (simp add: round_half_even_def)
  next
    case False
    then have "\<lfloor>x\<rfloor> + 1 \<le> n"
      using below by simp
    then have "(of_int (\<lfloor>x\<rfloor> + 1) :: real) \<le> of_int n" "(of_int \<lfloor>x\<rfloor> :: real) \<le> of_int n"
      using of_int_le_iff below by blast+
    then show ?thesis
      by (simp add: round_half_even_def Let_def)
  qed
qed

lemma round_half_even_threshold: "d \<le> 1852 \<Longrightarrow> round_half_even d \<le> 1852"
  using round_half_even_le_int [of d 1852] by simp

lemma length_cross_merge: "length (cross_merge ws vs) = length ws * length vs"
  by (induction ws) (simp_all add: cross_merge_def)

lemma set_cross_merge: "set (cross_merge ws vs) = set ws \<times> set vs"
  by (auto simp: cross_merge_def)

lemma cross_merge_Cons: "cross_merge (w # ws) vs = map (\<lambda>v. (w, v)) vs @ cross_merge ws vs"
  by (simp add: cross_merge_def)

lemma product_cross_merge:
  "map (\<lambda>row. (w_id (fst row), v_id (snd row))) (cross_merge ws vs) =
     List.product (map w_id ws) (map v_id vs)"
  by (induction ws) (simp_all add: cross_merge_def comp_def)

subsection \<open>The pass over the rows\<close>

lemma apply_rows_Inr_rows: "snd (apply_rows gc rows) = Inr ds \<Longrightarrow> map fst ds = rows"
  by (induction rows arbitrary: ds) (auto split: sum.splits prod.splits)

lemma apply_rows_Inl_row:
  "snd (apply_rows gc rows) = Inl e \<Longrightarrow> \<exists>row \<in> set rows. calculate_distance gc row = Inl e"
  by (induction rows) (auto split: sum.splits prod.splits)

lemma apply_rows_append:
  "snd (apply_rows gc (xs @ ys)) =
     (case snd (apply_rows gc xs) of
        Inl e \<Rightarrow> Inl e
      | Inr a \<Rightarrow> (case snd (apply_rows gc ys) of Inl e \<Rightarrow> Inl e | Inr b \<Rightarrow> Inr (a @ b)))"
  by (induction xs) (auto split: sum.splits prod.splits)

lemma inner_loop_apply_rows:
  "spec_inner_loop gc w vs =
     (case snd (apply_rows gc (map (\<lambda>v. (w, v)) vs)) of
        Inl e \<Rightarrow> Inl e
      | Inr ps \<Rightarrow> Inr (map to_record (filter (\<lambda>p. snd p \<le> 1852) ps)))"
  by (induction vs) (auto simp: calculate_distance_def to_record_def split: sum.splits prod.splits)

lemma outer_loop_apply_rows:
  "spec_outer_loop gc ws vs =
     (case snd (apply_rows gc (cross_merge ws vs)) of
        Inl e \<Rightarrow> Inl e
      | Inr ps \<Rightarrow> Inr (map to_record (filter (\<lambda>p. snd p \<le> 1852) ps)))"
  by (induction ws)
     (auto simp: cross_merge_Cons apply_rows_append inner_loop_apply_rows cross_merge_def
           split: sum.splits)

lemma outer_loop_no_pairs: "ws = [] \<or> vs = [] \<Longrightarrow> spec_outer_loop gc ws vs = Inr []"
  by (induction ws) auto

lemma analysis_body_rows:
  "snd (analysis_body gc (PRows ws) (PRows vs)) =
     (case snd (apply_rows gc (cross_merge ws vs)) of
        Inl e \<Rightarrow> Inl e
      | Inr ps \<Rightarrow> Inr (map to_record (filter (\<lambda>p. snd p \<le> 1852) ps)))"
  by (simp add: analysis_body_def split: prod.splits sum.splits)

lemma analyze_rows:
  assumes "map_of wdata ''sightings'' = Some (PRows ws)"
    and "map_of vdata ''vessels'' = Some (PRows vs)"
  shows "snd (analyze_proximity_risk gc wdata vdata) =
     (if ws = [] \<or> vs = [] then Inr []
      else (case snd (apply_rows gc (cross_merge ws vs)) of
        Inl e \<Rightarrow> Inl (HTTPException 500 (''Data analysis with Pandas failed: '' @ lib_str e))
      | Inr ps \<Rightarrow> Inr (map to_record (filter (\<lambda>p. snd p \<le> 1852) ps))))"
  using assms analysis_body_rows [of gc ws vs]
  by (auto simp: analyze_proximity_risk_def dict_get_def split: prod.splits sum.splits)

lemma retained_ids_subseq:
  "subseq (map (\<lambda>ev. (whale_sighting_id ev, vessel_id ev))
             (map to_record (filter (\<lambda>p. snd p \<le> 1852) ps)))
          (map (\<lambda>row. (w_id (fst row), v_id (snd row))) (map fst ps))"
proof -
  have "map (\<lambda>ev. (whale_sighting_id ev, vessel_id ev))
          (map to_record (filter (\<lambda>p. snd p \<le> 1852) ps))
      = map (\<lambda>p. (w_id (fst (fst p)), v_id (snd (fst p)))) (filter (\<lambda>p. snd p \<le> 1852) ps)"
    by (simp add: to_record_def comp_def)
  moreover have "map (\<lambda>row. (w_id (fst row), v_id (snd row))) (map fst ps)
      = map (\<lambda>p. (w_id (fst (fst p)), v_id (snd (fst p)))) ps"
    by (simp add: comp_def)
  ultimately show ?thesis
    by (simp add: subseq_map del: map_map)
qed

subsection \<open>Claims about the analysis\<close>

text \<open>
  C1. When the payloads hold a non-empty list of sightings and a non-empty list of vessels,
  a returned list of risk events has at most \<open>|sightings| \<times> |vessels|\<close> entries and every
  entry has \<open>distance_meters \<le> 1852\<close>. The analysis returns unless the distance routine
  raises on one of the pairs.
\<close>

theorem analyze_bounded:
  assumes "map_of wdata ''sightings'' = Some (PRows ws)"
    and "map_of vdata ''vessels'' = Some (PRows vs)"
    and "ws \<noteq> []" and "vs \<noteq> []"
  shows "case snd (analyze_proximity_risk gc wdata vdata) of
           Inr evs \<Rightarrow>
             length evs \<le> length ws * length vs \<and> (\<forall>ev \<in> set evs. distance_meters ev \<le> 1852)
         | Inl err \<Rightarrow>
             \<exists>w \<in> set ws. \<exists>v \<in> set vs. \<exists>e. gc (w_lat w, w_lon w) (v_lat v, v_lon v) = Inl e"
proof (cases "snd (apply_rows gc (cross_merge ws vs))")
  case (Inl e)
  then obtain row where "row \<in> set (cross_merge ws vs)" "calculate_distance gc row = Inl e"
    using apply_rows_Inl_row by blast
  then have "\<exists>w \<in> set ws. \<exists>v \<in> set vs. \<exists>e. gc (w_lat w, w_lon w) (v_lat v, v_lon v) = Inl e"
    by (fastforce simp: set_cross_merge calculate_distance_def)
  then show ?thesis
    using assms Inl by (simp add: analyze_rows)
next
  case (Inr ps)
  then have "length ps = length ws * length vs"
    using apply_rows_Inr_rows [of gc "cross_merge ws vs" ps] length_cross_merge [of ws vs]
    by (metis length_map)
  then have "length (map to_record (filter (\<lambda>p. snd p \<le> 1852) ps)) \<le> length ws * length vs"
    using length_filter_le [of "\<lambda>p. snd p \<le> 1852" ps] by simp
  moreover have "\<forall>ev \<in> set (map to_record (filter (\<lambda>p. snd p \<le> 1852) ps)). distance_meters ev \<le> 1852"
    by (auto simp: to_record_def round_half_even_threshold)
  ultimately show ?thesis
    using assms Inr by (simp add: analyze_rows)
qed

theorem analyze_bounded_witness:
  "case snd (analyze_proximity_risk taxicab_meters
               (get_sightings ''v1'' ''zone-1'' 1) (get_vessel_tracks ''zone-1'')) of
     Inr evs \<Rightarrow> length evs \<le> 2 * 4 \<and> (\<forall>ev \<in> set evs. distance_meters ev \<le> 1852)
   | Inl err \<Rightarrow> False"
  using analyze_bounded [of "get_sightings ''v1'' ''zone-1'' 1"
     "[\<lparr>w_id = ''human-1'', w_type = ''SRKW'', w_lat = 45.52, w_lon = -123.99\<rparr>,
       \<lparr>w_id = ''human-2'', w_type = ''SRKW'', w_lat = 45.55, w_lon = -123.98\<rparr>]"
     "get_vessel_tracks ''zone-1''"
     "[\<lparr>v_id = ''vessel-A'', v_class = ''Ferry'', v_lat = 45.53, v_lon = -123.985\<rparr>,
       \<lparr>v_id = ''vessel-B'', v_class = ''Recreational'', v_lat = 45.52, v_lon = -123.991\<rparr>,
       \<lparr>v_id = ''vessel-C'', v_class = ''Cargo'', v_lat = 45.56, v_lon = -124.01\<rparr>,
       \<lparr>v_id = ''vessel-D'', v_class = ''Recreational'', v_lat = 45.54, v_lon = -123.975\<rparr>]"
     taxicab_meters]
  by (simp add: get_sightings_def get_vessel_tracks_def taxicab_meters_def split: sum.splits)

text \<open>
  C2. When the list of sightings is empty or the list of vessels is empty, the analysis
  returns the empty list and its trace is empty: the distance routine is not called.
\<close>

theorem analyze_empty_input:
  assumes "map_of wdata ''sightings'' = Some (PRows []) \<or> map_of vdata ''vessels'' = Some (PRows [])"
  shows "analyze_proximity_risk gc wdata vdata = ([], Inr [])"
  using assms by (auto simp: analyze_proximity_risk_def dict_get_def)

theorem analyze_empty_input_witness:
  "analyze_proximity_risk taxicab_meters
      [(''source'', PText ''v1 (Human Sightings)''), (''sightings'', PRows [])]
      (get_vessel_tracks ''zone-1'') = ([], Inr [])
   \<and> analyze_proximity_risk checked_meters (get_sightings ''v2'' ''zone-1'' 0)
      [(''source'', PText ''Mocked AIS Feed''), (''vessels'', PRows [])] = ([], Inr [])"
  using analyze_empty_input [of "[(''source'', PText ''v1 (Human Sightings)''), (''sightings'', PRows [])]"
      "get_vessel_tracks ''zone-1''" taxicab_meters]
    analyze_empty_input [of "get_sightings ''v2'' ''zone-1'' 0"
      "[(''source'', PText ''Mocked AIS Feed''), (''vessels'', PRows [])]" checked_meters]
  by simp

text \<open>
  C7. The returned risk events are those of the two nested loops, the outer one over the
  sightings and the inner one over the vessels, in that order; so the pairs
  (sighting id, vessel id) of the returned events form a subsequence of the cross product
  of the two id lists.
\<close>

theorem analyze_cross_product_order:
  assumes "map_of wdata ''sightings'' = Some (PRows ws)"
    and "map_of vdata ''vessels'' = Some (PRows vs)"
  shows "snd (analyze_proximity_risk gc wdata vdata) =
           (case spec_outer_loop gc ws vs of
              Inl e \<Rightarrow> Inl (HTTPException 500 (''Data analysis with Pandas failed: '' @ lib_str e))
            | Inr evs \<Rightarrow> Inr evs)
         \<and> (\<forall>evs. snd (analyze_proximity_risk gc wdata vdata) = Inr evs \<longrightarrow>
              subseq (map (\<lambda>ev. (whale_sighting_id ev, vessel_id ev)) evs)
                     (List.product (map w_id ws) (map v_id vs)))"
proof (intro conjI allI impI)
  show "snd (analyze_proximity_risk gc wdata vdata) =
           (case spec_outer_loop gc ws vs of
              Inl e \<Rightarrow> Inl (HTTPException 500 (''Data analysis with Pandas failed: '' @ lib_str e))
            | Inr evs \<Rightarrow> Inr evs)"
  proof (cases "ws = [] \<or> vs = []")
    case True
    then show ?thesis
      using assms by (simp add: analyze_rows outer_loop_no_pairs)
  next
    case False
    then show ?thesis
      using assms by (simp add: analyze_rows outer_loop_apply_rows split: sum.splits)
  qed
next
  fix evs
  assume returned: "snd (analyze_proximity_risk gc wdata vdata) = Inr evs"
  show "subseq (map (\<lambda>ev. (whale_sighting_id ev, vessel_id ev)) evs)
               (List.product (map w_id ws) (map v_id vs))"
  proof (cases "ws = [] \<or> vs = []")
    case True
    then have "evs = []"
      using returned assms by (simp add: analyze_rows)
    then show ?thesis by simp
  next
    case False
    then obtain ps where ps: "snd (apply_rows gc (cross_merge ws vs)) = Inr ps"
      and evs: "evs = map to_record (filter (\<lambda>p. snd p \<le> 1852) ps)"
      using returned assms by (auto simp: analyze_rows split: sum.splits)
    have "map fst ps = cross_merge ws vs"
      using ps by (rule apply_rows_Inr_rows)
    then show ?thesis
      using retained_ids_subseq [of ps] evs product_cross_merge [of ws vs] by simp
  qed
qed

theorem analyze_cross_product_order_witness:
  "snd (analyze_proximity_risk taxicab_meters
          (get_sightings ''v1'' ''zone-1'' 1) (get_vessel_tracks ''zone-1'')) =
     Inr [\<lparr>vessel_id = ''vessel-A'', vessel_class = ''Ferry'',
            whale_sighting_id = ''human-1'', distance_meters = 1668\<rparr>,
          \<lparr>vessel_id = ''vessel-B'', vessel_class = ''Recreational'',
            whale_sighting_id = ''human-1'', distance_meters = 111\<rparr>,
          \<lparr>vessel_id = ''vessel-D'', vessel_class = ''Recreational'',
            whale_sighting_id = ''human-2'', distance_meters = 1668\<rparr>]"
  using analyze_cross_product_order [of "get_sightings ''v1'' ''zone-1'' 1"
     "[\<lparr>w_id = ''human-1'', w_type = ''SRKW'', w_lat = 45.52, w_lon = -123.99\<rparr>,
       \<lparr>w_id = ''human-2'', w_type = ''SRKW'', w_lat = 45.55, w_lon = -123.98\<rparr>]"
     "get_vessel_tracks ''zone-1''"
     "[\<lparr>v_id = ''vessel-A'', v_class = ''Ferry'', v_lat = 45.53, v_lon = -123.985\<rparr>,
       \<lparr>v_id = ''vessel-B'', v_class = ''Recreational'', v_lat = 45.52, v_lon = -123.991\<rparr>,
       \<lparr>v_id = ''vessel-C'', v_class = ''Cargo'', v_lat = 45.56, v_lon = -124.01\<rparr>,
       \<lparr>v_id = ''vessel-D'', v_class = ''Recreational'', v_lat = 45.54, v_lon = -123.975\<rparr>]"
     taxicab_meters]
  by (simp add: get_sightings_def get_vessel_tracks_def taxicab_meters_def round_half_even_def Let_def)

text \<open>
  C9. When the sighting payload has no key \<^verbatim>\<open>sightings\<close> or the vessel payload has no key
  \<^verbatim>\<open>vessels\<close>, the analysis takes the missing list as empty: it returns the empty list and
  raises nothing.
\<close>

theorem analyze_missing_key:
  assumes "map_of wdata ''sightings'' = None \<or> map_of vdata ''vessels'' = None"
  shows "analyze_proximity_risk gc wdata vdata = ([], Inr [])"
  using assms by (auto simp: analyze_proximity_risk_def dict_get_def)

theorem analyze_missing_key_witness:
  "analyze_proximity_risk taxicab_meters [(''source'', PText ''v1 (Human Sightings)'')]
      (get_vessel_tracks ''zone-1'') = ([], Inr [])
   \<and> analyze_proximity_risk taxicab_meters (get_sightings ''v1'' ''zone-1'' 1) [] = ([], Inr [])"
  using analyze_missing_key [of "[(''source'', PText ''v1 (Human Sightings)'')]"
      "get_vessel_tracks ''zone-1''" taxicab_meters]
    analyze_missing_key [of "get_sightings ''v1'' ''zone-1'' 1" "[]" taxicab_meters]
  by simp

section \<open>Properties of the summarization\<close>

lemma post_json_Inl_iff:
  "isl (post_json outcome) \<longleftrightarrow>
     (case outcome of
        PostRaised e \<Rightarrow> True
      | PostResponse r \<Rightarrow> \<not> is_success (status_code r) \<or> isl (json_body r))"
  by (simp add: post_json_def raise_for_status_def split: http_outcome.splits sum.splits)

lemma summary_never_raises:
  "\<exists>s. snd (get_summary_and_action post url evs z) = Inr s"
  by (simp add: get_summary_and_action_def split: sum.splits)

lemma summary_reply_returned:
  assumes "evs \<noteq> []"
    and "post url (PromptRequest z evs) = PostResponse r"
    and "is_success (status_code r)"
    and "json_body r = Inr reply"
  shows "snd (get_summary_and_action post url evs z) = Inr reply"
  using assms by (simp add: get_summary_and_action_def post_json_def raise_for_status_def)

lemmas run_defs = check_risk_def get_data_from_agent_def post_json_def raise_for_status_def
  is_success_def default_config_def ok_reply_def error_reply_def timed_out_def garbled_reply_def

lemmas analysis_defs = analyze_proximity_risk_def dict_get_def analysis_body_def cross_merge_def
  calculate_distance_def distance_call_def to_record_def round_half_even_def Let_def
  get_sightings_def get_vessel_tracks_def taxicab_meters_def checked_meters_def
  get_summary_and_action_def

text \<open>
  C3. With a non-empty list of risk events, when the request to the summarizer raises (the
  service is unreachable or times out), or its reply has a status outside 2xx, or the body
  of its reply does not parse as JSON, \<^verbatim>\<open>get_summary_and_action\<close> returns a summary whose
  \<^verbatim>\<open>risk_level\<close> is \<^verbatim>\<open>"Unknown"\<close>; it returns and raises nothing.
\<close>

theorem summary_fallback:
  assumes "evs \<noteq> []"
    and "(\<exists>e. post url (PromptRequest z evs) = PostRaised e)
       \<or> (\<exists>r. post url (PromptRequest z evs) = PostResponse r \<and> \<not> is_success (status_code r))
       \<or> (\<exists>r e. post url (PromptRequest z evs) = PostResponse r \<and> json_body r = Inl e)"
  shows "\<exists>s. snd (get_summary_and_action post url evs z) = Inr s \<and> risk_level s = Some ''Unknown''"
proof -
  have "isl (post_json (post url (PromptRequest z evs)))"
    using assms(2) by (auto simp: post_json_Inl_iff)
  then obtain e where "post_json (post url (PromptRequest z evs)) = Inl e"
    by (cases "post_json (post url (PromptRequest z evs))") auto
  then show ?thesis
    using assms(1) by (simp add: get_summary_and_action_def risk_level_def)
qed

theorem summary_fallback_witness:
  "(\<exists>s. snd (get_summary_and_action
             (\<lambda>url req. error_reply 500 ''GOOGLE_API_KEY secret not configured'')
             (LLM_PROXY_URL default_config)
             [\<lparr>vessel_id = ''vessel-B'', vessel_class = ''Recreational'',
               whale_sighting_id = ''human-1'', distance_meters = 111\<rparr>] ''zone-1'') = Inr s
        \<and> risk_level s = Some ''Unknown'')
   \<and> (\<exists>s. snd (get_summary_and_action (\<lambda>url req. timed_out)
             (LLM_PROXY_URL default_config)
             [\<lparr>vessel_id = ''vessel-B'', vessel_class = ''Recreational'',
               whale_sighting_id = ''human-1'', distance_meters = 111\<rparr>] ''zone-1'') = Inr s
        \<and> risk_level s = Some ''Unknown'')
   \<and> (\<exists>s. snd (get_summary_and_action (\<lambda>url req. garbled_reply)
             (LLM_PROXY_URL default_config)
             [\<lparr>vessel_id = ''vessel-B'', vessel_class = ''Recreational'',
               whale_sighting_id = ''human-1'', distance_meters = 111\<rparr>] ''zone-1'') = Inr s
        \<and> risk_level s = Some ''Unknown'')"
  using summary_fallback [of "[\<lparr>vessel_id = ''vessel-B'', vessel_class = ''Recreational'',
               whale_sighting_id = ''human-1'', distance_meters = 111\<rparr>]"
           "\<lambda>url req. error_reply 500 ''GOOGLE_API_KEY secret not configured''"
           "LLM_PROXY_URL default_config" "''zone-1''"]
        summary_fallback [of "[\<lparr>vessel_id = ''vessel-B'', vessel_class = ''Recreational'',
               whale_sighting_id = ''human-1'', distance_meters = 111\<rparr>]"
           "\<lambda>url req. timed_out"
           "LLM_PROXY_URL default_config" "''zone-1''"]
        summary_fallback [of "[\<lparr>vessel_id = ''vessel-B'', vessel_class = ''Recreational'',
               whale_sighting_id = ''human-1'', distance_meters = 111\<rparr>]"
           "\<lambda>url req. garbled_reply"
           "LLM_PROXY_URL default_config" "''zone-1''"]
  by (simp add: error_reply_def timed_out_def garbled_reply_def is_success_def)

text \<open>
  C4. With the empty list of risk events, \<^verbatim>\<open>get_summary_and_action\<close> returns the fixed
  summary with \<^verbatim>\<open>risk_level\<close> \<^verbatim>\<open>"Low"\<close>, for every zone and whatever the summarizer would
  answer, and its trace is empty: no outbound request is made.
\<close>

theorem summary_no_events:
  "get_summary_and_action post url [] z =
     ([], Inr [(''summary'', ''No high-risk proximity events were detected.''),
               (''risk_level'', ''Low''),
               (''recommended_action'', ''No action required. Continue monitoring.'')])
   \<and> (\<exists>s. snd (get_summary_and_action post url [] z) = Inr s \<and> risk_level s = Some ''Low'')"
  by (simp add: get_summary_and_action_def risk_level_def)

theorem summary_no_events_witness:
  "fst (get_summary_and_action (\<lambda>url req. timed_out) (LLM_PROXY_URL default_config) [] ''zone-1'') = []
   \<and> map_sum id risk_level
        (snd (get_summary_and_action (\<lambda>url req. timed_out) (LLM_PROXY_URL default_config) [] ''zone-1''))
      = Inr (Some ''Low'')"
  using summary_no_events [of "\<lambda>url req. timed_out" "LLM_PROXY_URL default_config" "''zone-1''"]
  by (simp add: risk_level_def)

section \<open>Properties of the endpoint\<close>

lemma fetch_timeout:
  "url \<noteq> [] \<Longrightarrow> post url (ZoneRequest z) = PostRaised (RequestError msg) \<Longrightarrow>
     snd (get_data_from_agent post url z) =
       Inl (HTTPException 504 ''Could not connect to downstream service'')"
  by (simp add: get_data_from_agent_def post_json_def)

lemma fetch_status_error:
  "url \<noteq> [] \<Longrightarrow> post url (ZoneRequest z) = PostResponse r \<Longrightarrow> \<not> is_success (status_code r) \<Longrightarrow>
     snd (get_data_from_agent post url z) =
       Inl (HTTPException 503 (''Downstream service unavailable '' @ body_text r))"
  by (simp add: get_data_from_agent_def post_json_def raise_for_status_def)

lemma check_risk_whale_failed:
  assumes "snd (get_data_from_agent pw (BIOLOGIST_AGENT_URL cfg) z) = Inl e"
  shows "check_risk cfg pw pv pl gc z =
     (fst (get_data_from_agent pw (BIOLOGIST_AGENT_URL cfg) z)
        @ fst (get_data_from_agent pv (VESSEL_AGENT_URL cfg) z), Inl e)"
proof -
  obtain t1 where w: "get_data_from_agent pw (BIOLOGIST_AGENT_URL cfg) z = (t1, Inl e)"
    using assms by (cases "get_data_from_agent pw (BIOLOGIST_AGENT_URL cfg) z") auto
  obtain t2 r2 where v: "get_data_from_agent pv (VESSEL_AGENT_URL cfg) z = (t2, r2)"
    by (cases "get_data_from_agent pv (VESSEL_AGENT_URL cfg) z") auto
  show ?thesis
    by (simp add: check_risk_def w v)
qed

lemma check_risk_vessel_failed:
  assumes "snd (get_data_from_agent pw (BIOLOGIST_AGENT_URL cfg) z) = Inr wdata"
    and "snd (get_data_from_agent pv (VESSEL_AGENT_URL cfg) z) = Inl e"
  shows "check_risk cfg pw pv pl gc z =
     (fst (get_data_from_agent pw (BIOLOGIST_AGENT_URL cfg) z)
        @ fst (get_data_from_agent pv (VESSEL_AGENT_URL cfg) z), Inl e)"
proof -
  obtain t1 where w: "get_data_from_agent pw (BIOLOGIST_AGENT_URL cfg) z = (t1, Inr wdata)"
    using assms(1) by (cases "get_data_from_agent pw (BIOLOGIST_AGENT_URL cfg) z") auto
  obtain t2 where v: "get_data_from_agent pv (VESSEL_AGENT_URL cfg) z = (t2, Inl e)"
    using assms(2) by (cases "get_data_from_agent pv (VESSEL_AGENT_URL cfg) z") auto
  show ?thesis
    by (simp add: check_risk_def w v)
qed

lemma check_risk_completes:
  assumes "snd (get_data_from_agent pw (BIOLOGIST_AGENT_URL cfg) z) = Inr wdata"
    and "snd (get_data_from_agent pv (VESSEL_AGENT_URL cfg) z) = Inr vdata"
    and "map_of wdata ''source'' = Some src"
    and "snd (analyze_proximity_risk gc wdata vdata) = Inr evs"
  shows "\<exists>summ. snd (check_risk cfg pw pv pl gc z) =
            Inr \<lparr>zone = z, ai_summary = summ, risk_events_found = length evs,
                 risk_events = evs, whale_data = wdata, vessel_data = vdata\<rparr>"
proof -
  obtain summ where "snd (get_summary_and_action pl (LLM_PROXY_URL cfg) evs z) = Inr summ"
    using summary_never_raises by blast
  then show ?thesis
    using assms by (auto simp: check_risk_def split: prod.splits)
qed

lemma check_risk_analysis_failed:
  assumes "snd (get_data_from_agent pw (BIOLOGIST_AGENT_URL cfg) z) = Inr wdata"
    and "snd (get_data_from_agent pv (VESSEL_AGENT_URL cfg) z) = Inr vdata"
    and "map_of wdata ''source'' = Some src"
    and "snd (analyze_proximity_risk gc wdata vdata) = Inl e"
  shows "snd (check_risk cfg pw pv pl gc z) = Inl e"
  using assms by (auto simp: check_risk_def split: prod.splits)

lemma analyze_raises_only_500:
  "snd (analyze_proximity_risk gc wdata vdata) = Inl e \<Longrightarrow> \<exists>detail. e = HTTPException 500 detail"
  by (auto simp: analyze_proximity_risk_def Let_def split: if_splits prod.splits sum.splits)

text \<open>
  C5. When at least one of the two fetches fails, \<^verbatim>\<open>check_risk\<close> fails with the error of a
  provider: the sighting provider's error when that fetch failed, and the vessel provider's
  error when the sighting fetch succeeded. Both fetches run before the outcomes are
  inspected (the trace is the trace of the first followed by the trace of the second), and
  nothing else is attempted.
\<close>

theorem check_risk_upstream_failure:
  assumes "isl (snd (get_data_from_agent pw (BIOLOGIST_AGENT_URL cfg) z))
         \<or> isl (snd (get_data_from_agent pv (VESSEL_AGENT_URL cfg) z))"
  shows "\<exists>e. snd (check_risk cfg pw pv pl gc z) = Inl e
           \<and> (snd (get_data_from_agent pw (BIOLOGIST_AGENT_URL cfg) z) = Inl e
              \<or> (\<not> isl (snd (get_data_from_agent pw (BIOLOGIST_AGENT_URL cfg) z))
                 \<and> snd (get_data_from_agent pv (VESSEL_AGENT_URL cfg) z) = Inl e))
           \<and> fst (check_risk cfg pw pv pl gc z) =
               fst (get_data_from_agent pw (BIOLOGIST_AGENT_URL cfg) z)
                 @ fst (get_data_from_agent pv (VESSEL_AGENT_URL cfg) z)"
proof (cases "snd (get_data_from_agent pw (BIOLOGIST_AGENT_URL cfg) z)")
  case (Inl e)
  then show ?thesis
    using check_risk_whale_failed [of pw cfg z e pv pl gc] by simp
next
  case (Inr wdata)
  then obtain e where "snd (get_data_from_agent pv (VESSEL_AGENT_URL cfg) z) = Inl e"
    using assms by (cases "snd (get_data_from_agent pv (VESSEL_AGENT_URL cfg) z)") auto
  then show ?thesis
    using Inr check_risk_vessel_failed [of pw cfg z wdata pv e pl gc] by simp
qed

theorem check_risk_upstream_failure_witness:
  "check_risk default_config (\<lambda>url req. timed_out)
       (\<lambda>url req. ok_reply (get_vessel_tracks ''zone-1''))
       (\<lambda>url req. timed_out) taxicab_meters ''zone-1'' =
     ([HttpPost ''http://127.0.0.1:8081/get_sightings'' (ZoneRequest ''zone-1''),
       HttpPost ''http://127.0.0.1:8082/get_vessel_tracks'' (ZoneRequest ''zone-1'')],
      Inl (HTTPException 504 ''Could not connect to downstream service''))
   \<and> check_risk default_config (\<lambda>url req. ok_reply (get_sightings ''v1'' ''zone-1'' 1))
       (\<lambda>url req. error_reply 503 ''overloaded'')
       (\<lambda>url req. timed_out) taxicab_meters ''zone-1'' =
     ([HttpPost ''http://127.0.0.1:8081/get_sightings'' (ZoneRequest ''zone-1''),
       HttpPost ''http://127.0.0.1:8082/get_vessel_tracks'' (ZoneRequest ''zone-1'')],
      Inl (HTTPException 503 ''Downstream service unavailable overloaded''))"
  using check_risk_upstream_failure [of "\<lambda>url req. timed_out" default_config "''zone-1''"
      "\<lambda>url req. ok_reply (get_vessel_tracks ''zone-1'')" "\<lambda>url req. timed_out" taxicab_meters]
    check_risk_upstream_failure [of "\<lambda>url req. ok_reply (get_sightings ''v1'' ''zone-1'' 1)"
      default_config "''zone-1''" "\<lambda>url req. error_reply 503 ''overloaded''"
      "\<lambda>url req. timed_out" taxicab_meters]
  by (simp add: run_defs)

text \<open>
  C6, as stated: whenever both fetches succeed the request completes with a report. This
  fails. With both fetches successful, a sighting whose latitude the distance routine
  rejects makes the analysis raise, and the endpoint fails with HTTP 500; and a sighting
  payload without the key \<^verbatim>\<open>source\<close> makes the subscript of the log line raise \<^verbatim>\<open>KeyError\<close>.
\<close>

theorem check_risk_success_counterexample:
  "snd (get_data_from_agent
          (\<lambda>url req. ok_reply [(''source'', PText ''v1 (Human Sightings)''),
             (''sightings'', PRows
                [\<lparr>w_id = ''human-1'', w_type = ''SRKW'', w_lat = 95, w_lon = -123.99\<rparr>])])
          (BIOLOGIST_AGENT_URL default_config) ''zone-1'')
     = Inr [(''source'', PText ''v1 (Human Sightings)''),
            (''sightings'', PRows
               [\<lparr>w_id = ''human-1'', w_type = ''SRKW'', w_lat = 95, w_lon = -123.99\<rparr>])]
   \<and> snd (get_data_from_agent (\<lambda>url req. ok_reply (get_vessel_tracks ''zone-1''))
          (VESSEL_AGENT_URL default_config) ''zone-1'') = Inr (get_vessel_tracks ''zone-1'')
   \<and> snd (check_risk default_config
        (\<lambda>url req. ok_reply [(''source'', PText ''v1 (Human Sightings)''),
           (''sightings'', PRows
              [\<lparr>w_id = ''human-1'', w_type = ''SRKW'', w_lat = 95, w_lon = -123.99\<rparr>])])
        (\<lambda>url req. ok_reply (get_vessel_tracks ''zone-1''))
        (\<lambda>url req. timed_out) checked_meters ''zone-1'')
     = Inl (HTTPException 500
             ''Data analysis with Pandas failed: Latitude must be in the [-90; 90] range.'')
   \<and> snd (get_data_from_agent (\<lambda>url req. ok_reply [(''sightings'', PRows [])])
          (BIOLOGIST_AGENT_URL default_config) ''zone-1'') = Inr [(''sightings'', PRows [])]
   \<and> snd (check_risk default_config
        (\<lambda>url req. ok_reply [(''sightings'', PRows [])])
        (\<lambda>url req. ok_reply (get_vessel_tracks ''zone-1''))
        (\<lambda>url req. timed_out) checked_meters ''zone-1'')
     = Inl (KeyError ''source'')"
  by (simp add: run_defs get_vessel_tracks_def analyze_proximity_risk_def dict_get_def
      analysis_body_def cross_merge_def calculate_distance_def distance_call_def
      checked_meters_def taxicab_meters_def)

text \<open>
  C6, amended. When both fetches succeed and the sighting payload has the key \<^verbatim>\<open>source\<close>,
  the request completes with a report exactly when the proximity analysis returns: the
  report holds the zone, the events, their number and the two payloads. When the analysis
  raises, the request fails with the HTTP 500 error of the analysis.
\<close>

theorem check_risk_completes_when_analysis_does:
  assumes "snd (get_data_from_agent pw (BIOLOGIST_AGENT_URL cfg) z) = Inr wdata"
    and "snd (get_data_from_agent pv (VESSEL_AGENT_URL cfg) z) = Inr vdata"
    and "map_of wdata ''source'' = Some src"
  shows "(\<forall>evs. snd (analyze_proximity_risk gc wdata vdata) = Inr evs \<longrightarrow>
            (\<exists>summ. snd (check_risk cfg pw pv pl gc z) =
               Inr \<lparr>zone = z, ai_summary = summ, risk_events_found = length evs,
                    risk_events = evs, whale_data = wdata, vessel_data = vdata\<rparr>))
       \<and> (\<forall>e. snd (analyze_proximity_risk gc wdata vdata) = Inl e \<longrightarrow>
            snd (check_risk cfg pw pv pl gc z) = Inl e \<and> (\<exists>detail. e = HTTPException 500 detail))"
  using assms check_risk_completes [of pw cfg z wdata pv vdata src gc _ pl]
    check_risk_analysis_failed [of pw cfg z wdata pv vdata src gc _ pl]
    analyze_raises_only_500 [of gc wdata vdata]
  by blast

theorem check_risk_completes_when_analysis_does_witness:
  "\<exists>summ. snd (check_risk default_config
        (\<lambda>url req. ok_reply (get_sightings ''v1'' ''zone-1'' 1))
        (\<lambda>url req. ok_reply (get_vessel_tracks ''zone-1''))
        (\<lambda>url req. timed_out) taxicab_meters ''zone-1'') =
     Inr \<lparr>zone = ''zone-1'', ai_summary = summ, risk_events_found = 3,
          risk_events =
            [\<lparr>vessel_id = ''vessel-A'', vessel_class = ''Ferry'',
               whale_sighting_id = ''human-1'', distance_meters = 1668\<rparr>,
             \<lparr>vessel_id = ''vessel-B'', vessel_class = ''Recreational'',
               whale_sighting_id = ''human-1'', distance_meters = 111\<rparr>,
             \<lparr>vessel_id = ''vessel-D'', vessel_class = ''Recreational'',
               whale_sighting_id = ''human-2'', distance_meters = 1668\<rparr>],
          whale_data = get_sightings ''v1'' ''zone-1'' 1,
          vessel_data = get_vessel_tracks ''zone-1''\<rparr>"
  using check_risk_completes_when_analysis_does [of
        "\<lambda>url req. ok_reply (get_sightings ''v1'' ''zone-1'' 1)" default_config "''zone-1''"
        "get_sightings ''v1'' ''zone-1'' 1"
        "\<lambda>url req. ok_reply (get_vessel_tracks ''zone-1'')" "get_vessel_tracks ''zone-1''"
        "PText ''v1 (Human Sightings)''" taxicab_meters "\<lambda>url req. timed_out"]
  by (simp add: run_defs analysis_defs)

text \<open>
  C10. In every report that \<^verbatim>\<open>check_risk\<close> returns, \<^verbatim>\<open>risk_events_found\<close> is the length of
  \<^verbatim>\<open>risk_events\<close> and \<^verbatim>\<open>zone\<close> is the zone of the request.
\<close>

theorem check_risk_report_fields:
  assumes "snd (check_risk cfg pw pv pl gc z) = Inr rep"
  shows "risk_events_found rep = length (risk_events rep) \<and> zone rep = z"
  using assms
  by (auto simp: check_risk_def split: prod.splits sum.splits option.splits)

theorem check_risk_report_fields_witness:
  "\<exists>rep. snd (check_risk default_config
        (\<lambda>url req. ok_reply (get_sightings ''v2'' ''zone-7'' 0))
        (\<lambda>url req. ok_reply (get_vessel_tracks ''zone-7''))
        (\<lambda>url req. garbled_reply) taxicab_meters ''zone-7'') = Inr rep
     \<and> risk_events_found rep = length (risk_events rep) \<and> zone rep = ''zone-7''"
proof -
  obtain rep where run: "snd (check_risk default_config
        (\<lambda>url req. ok_reply (get_sightings ''v2'' ''zone-7'' 0))
        (\<lambda>url req. ok_reply (get_vessel_tracks ''zone-7''))
        (\<lambda>url req. garbled_reply) taxicab_meters ''zone-7'') = Inr rep"
    by (simp add: run_defs analysis_defs)
  then show ?thesis
    using check_risk_report_fields [OF run] by simp
qed

section \<open>Properties of the great-circle distance\<close>

lemma sin_half_diff_sq:
  fixes x y :: real
  shows "(sin ((x - y) / 2))\<^sup>2 = (sin ((y - x) / 2))\<^sup>2"
proof -
  have "(x - y) / 2 = - ((y - x) / 2)"
    by (simp add: field_simps)
  then have "sin ((x - y) / 2) = - sin ((y - x) / 2)"
    by (metis sin_minus)
  then show ?thesis
    by simp
qed

text \<open>
  C8. For every pair of points the great-circle distance is symmetric,
  \<open>distance(a, b) = distance(b, a)\<close>, and the distance of a point to itself is zero. This is
  proved of the haversine formula of the specification, over the reals and for every radius.
\<close>

theorem spec_distance_symmetric_zero:
  "spec_distance radius a b = spec_distance radius b a \<and> spec_distance radius a a = 0"
proof
  have "(sin ((radians (fst b) - radians (fst a)) / 2))\<^sup>2
          = (sin ((radians (fst a) - radians (fst b)) / 2))\<^sup>2"
    by (rule sin_half_diff_sq)
  moreover have "(sin ((radians (snd b) - radians (snd a)) / 2))\<^sup>2
          = (sin ((radians (snd a) - radians (snd b)) / 2))\<^sup>2"
    by (rule sin_half_diff_sq)
  ultimately show "spec_distance radius a b = spec_distance radius b a"
    by (simp add: spec_distance_def Let_def mult.commute)
next
  show "spec_distance radius a a = 0"
    by (simp add: spec_distance_def Let_def)
qed

theorem spec_distance_symmetric_zero_witness:
  "spec_distance 6371009 (45.52, -123.99) (45.52, -123.991)
     = spec_distance 6371009 (45.52, -123.991) (45.52, -123.99)
   \<and> spec_distance 6371009 (45.52, -123.99) (45.52, -123.99) = 0"
  using spec_distance_symmetric_zero [of 6371009 "(45.52, -123.99)" "(45.52, -123.991)"]
  by simp

end
